theory Spec2Isabelle
  imports Main "HOL-Library.Sublist"
begin

section \<open>Data model\<close>

text \<open>
  Strings are lists of characters; one list element stands for one code unit of the
  JavaScript string, so \<open>take 100\<close> is \<open>substring(0, 100)\<close> and \<open>@\<close> is string
  concatenation.

  A message's \<open>content\<close> is a string or, for the multi-part messages that the message type
  of the model provider allows, an array of parts. The source tests for the first case with
  \<open>typeof message.content === 'string'\<close>.
\<close>

datatype content = Str string | Parts "string list"

text \<open>
  \<open>Message\<close>: \<open>{ id, role, content, name? }\<close>. The role is the string the source compares
  with \<open>'system'\<close>, \<open>'user'\<close> and \<open>'assistant'\<close>; an absent \<open>name\<close> is \<open>None\<close>.
\<close>

record message =
  id_message :: string
  role :: string
  content :: content
  name :: "string option"

text \<open>\<open>export type AIState = { chatId: string, messages: Message[] }\<close>\<close>

record AIState =
  chatId :: string
  messages :: "message list"

text \<open>
  The React nodes that the source builds. \<open>BotMessageStream\<close> is
  \<open><BotMessage content={textStream.value} />\<close>, a bot message bound to a live stream;
  \<open>StatusNode\<close> (with or without the spinner) and \<open>SystemMessage\<close> carry the text of the
  status paragraphs of \<open>performAction\<close>.
\<close>

datatype node =
    Null
  | SpinnerMessage
  | UserMessage content
  | BotMessage string
  | BotMessageStream
  | StatusNode bool string
  | SystemMessage string

text \<open>\<open>export type UIState = { id: string, display: React.ReactNode }[]\<close>\<close>

record ui_entry =
  id_ui :: string
  display :: node

type_synonym UIState = "ui_entry list"

section \<open>UI projection\<close>

text \<open>
  The decimal rendering of an array index, as the template literal \<open>`${index}`\<close> produces
  it. \<open>digit\<close> is applied to numbers below ten only.
\<close>

definition digit :: "nat \<Rightarrow> char" where
  "digit d = ''0123456789'' ! d"

fun toString :: "nat \<Rightarrow> string" where
  "toString n = (if n < 10 then [digit n] else toString (n div 10) @ [digit (n mod 10)])"

declare toString.simps [simp del]

text \<open>
  The \<open>display\<close> expression of \<open>getUIStateFromAIState\<close>: a user message renders its
  content, an assistant message with string content renders that string, anything else
  renders \<open>null\<close>.
\<close>

definition display_of :: "message \<Rightarrow> node" where
  "display_of message =
     (if role message = ''user'' then UserMessage (content message)
      else if role message = ''assistant'' then
        (case content message of Str s \<Rightarrow> BotMessage s | Parts _ \<Rightarrow> Null)
      else Null)"

text \<open>
  \<open>aiState.messages.filter(message => message.role !== 'system').map((message, index) => ...)\<close>:
  the index is the position in the filtered array. The parameter is declared as a \<open>Chat\<close>;
  the function reads its \<open>chatId\<close> and \<open>messages\<close> only, and \<open>onGetUIState\<close> passes the AI
  state.
\<close>

definition getUIStateFromAIState :: "AIState \<Rightarrow> UIState" where
  "getUIStateFromAIState aiState =
     map (\<lambda>(index, message).
            \<lparr>id_ui = chatId aiState @ ''-'' @ toString index, display = display_of message\<rparr>)
         (enumerate 0 (filter (\<lambda>message. role message \<noteq> ''system'') (messages aiState)))"

section \<open>Errors\<close>

text \<open>
  \<open>TypeError\<close> is the JavaScript exception of a property read on \<open>undefined\<close>, of a call
  of a missing method and of a \<open>JSON.stringify\<close> that rejects its argument;
  \<open>StreamClosed\<close> is the exception of a streamable that is written after it was closed.
\<close>

datatype error = TypeError | StreamClosed

section \<open>Streams\<close>

text \<open>
  \<open>createStreamableValue\<close> and \<open>createStreamableUI\<close> come from the package \<open>ai/rsc\<close>, not
  from the repository. A streamable holds one value, first the initial one, and the
  flag that says whether it was closed: it goes from open to closed once, and a write to a
  closed streamable raises. \<open>update(v)\<close> puts \<open>v\<close> in the place of the held value; it does
  not join \<open>v\<close> to it.
\<close>

record 'a streamable =
  held :: 'a
  closed :: bool

definition createStreamable :: "'a \<Rightarrow> 'a streamable" where
  "createStreamable initial = \<lparr>held = initial, closed = False\<rparr>"

definition createStreamableValue :: "string \<Rightarrow> string streamable" where
  "createStreamableValue = createStreamable"

definition createStreamableUI :: "node \<Rightarrow> node streamable" where
  "createStreamableUI = createStreamable"

text \<open>\<open>stream.update(v)\<close>\<close>

definition update_stream :: "'a \<Rightarrow> 'a streamable \<Rightarrow> error + 'a streamable" where
  "update_stream v s = (if closed s then Inl StreamClosed else Inr (s\<lparr>held := v\<rparr>))"

text \<open>
  \<open>stream.done()\<close>, without a final value, keeps the held value; \<open>stream.done(v)\<close> puts \<open>v\<close>
  in its place. Both close the streamable.
\<close>

definition done_stream :: "'a streamable \<Rightarrow> error + 'a streamable" where
  "done_stream s = (if closed s then Inl StreamClosed else Inr (s\<lparr>closed := True\<rparr>))"

definition done_stream_with :: "'a \<Rightarrow> 'a streamable \<Rightarrow> error + 'a streamable" where
  "done_stream_with v s =
     (if closed s then Inl StreamClosed else Inr (s\<lparr>held := v, closed := True\<rparr>))"

section \<open>Conversation state store\<close>

text \<open>
  Modelled from the spec: \<open>getMutableAIState\<close> comes from \<open>ai/rsc\<close>. The spec's store has
  \<open>getCurrent()\<close>, which returns the latest state, and \<open>commit()\<close>, which marks the state as
  finalized for this update cycle. In the source \<open>aiState.get()\<close> reads the state,
  \<open>aiState.update(s)\<close> replaces it and \<open>aiState.done(s)\<close> replaces it and commits.
\<close>

record MutableAIState =
  currentState :: AIState
  committed :: bool

definition get :: "MutableAIState \<Rightarrow> AIState" where
  "get aiState = currentState aiState"

definition update_state :: "AIState \<Rightarrow> MutableAIState \<Rightarrow> MutableAIState" where
  "update_state s aiState = aiState\<lparr>currentState := s\<rparr>"

definition done_state :: "AIState \<Rightarrow> MutableAIState \<Rightarrow> MutableAIState" where
  "done_state s aiState = aiState\<lparr>currentState := s, committed := True\<rparr>"

text \<open>
  The object literal \<open>{ ...aiState.get(), messages: [...aiState.get().messages, m] }\<close> that
  all three writers of the source build: the current state with \<open>m\<close> after the current
  messages.
\<close>

definition with_message :: "message \<Rightarrow> MutableAIState \<Rightarrow> AIState" where
  "with_message m aiState = (get aiState)\<lparr>messages := messages (get aiState) @ [m]\<rparr>"

section \<open>performAction\<close>

text \<open>
  \<open>JSON.stringify(details)\<close> is a built-in applied to a value of type \<open>any\<close>: it returns a
  string, returns \<open>undefined\<close> (for \<open>undefined\<close>, a function or a symbol) or throws a
  \<open>TypeError\<close> (for a BigInt or a cyclic value). The serializer is a parameter of the model,
  of type \<open>'d \<Rightarrow> error + string option\<close>. A template literal renders a string as itself and
  \<open>undefined\<close> as the nine characters of its name.
\<close>

fun interpolate :: "string option \<Rightarrow> string" where
  "interpolate (Some s) = s"
| "interpolate None = ''undefined''"

text \<open>
  \<open>JSON.stringify\<close> on a BigInt, such as \<open>10n\<close>: it throws a \<open>TypeError\<close> for every
  BigInt.
\<close>

definition JSON_stringify_BigInt :: "int \<Rightarrow> error + string option" where
  "JSON_stringify_BigInt n = Inl TypeError"

text \<open>The two streamables that \<open>performAction\<close> creates and its background task closes.\<close>

record action_closure =
  performingAction :: "node streamable"
  systemMessage :: "node streamable"

record action_result =
  actionUI :: "node streamable"
  newMessage_id :: string
  newMessage_display :: "node streamable"

text \<open>
  The synchronous part: both streamables are created, the background task is scheduled and
  \<open>{ actionUI: performingAction.value, newMessage: { id: nanoid(), display:
  systemMessage.value } }\<close> is returned. The two values are handles of the streamables,
  here the streamables as created; what the task writes later is in the closure.
\<close>

definition performAction :: "string \<Rightarrow> string \<Rightarrow> action_closure \<times> action_result" where
  "performAction action nanoid =
     (let performingAction =
            createStreamableUI (StatusNode True (''Performing action: '' @ action @ ''...''));
          systemMessage = createStreamableUI Null
      in (\<lparr>performingAction = performingAction, systemMessage = systemMessage\<rparr>,
          \<lparr>actionUI = performingAction, newMessage_id = nanoid,
           newMessage_display = systemMessage\<rparr>))"

text \<open>
  The function passed to \<open>runAsyncFnWithoutBlocking\<close>, run to its end; the two \<open>sleep\<close>
  calls change nothing. The argument of \<open>aiState.done\<close> is evaluated before the call, so a
  \<open>JSON.stringify\<close> that throws leaves the store as it was, after both streamables were
  closed. The result is the exception, if any, and the state reached.
\<close>

definition performAction_task ::
  "('d \<Rightarrow> error + string option) \<Rightarrow> string \<Rightarrow> 'd \<Rightarrow> string \<Rightarrow> action_closure \<times> MutableAIState
     \<Rightarrow> error option \<times> action_closure \<times> MutableAIState" where
  "performAction_task JSON_stringify action details nanoid = (\<lambda>(cl, aiState).
     case update_stream
            (StatusNode True (''Performing action: '' @ action @ ''... working on it...''))
            (performingAction cl) of
       Inl e \<Rightarrow> (Some e, cl, aiState)
     | Inr p1 \<Rightarrow>
        (case done_stream_with
                (StatusNode False (''Action '' @ action @ '' completed successfully.'')) p1 of
           Inl e \<Rightarrow> (Some e, cl\<lparr>performingAction := p1\<rparr>, aiState)
         | Inr p2 \<Rightarrow>
            (case done_stream_with
                    (SystemMessage
                       (''The action '' @ action @ '' has been completed successfully.''))
                    (systemMessage cl) of
               Inl e \<Rightarrow> (Some e, cl\<lparr>performingAction := p2\<rparr>, aiState)
             | Inr s1 \<Rightarrow>
                (let cl' = \<lparr>performingAction = p2, systemMessage = s1\<rparr> in
                 case JSON_stringify details of
                   Inl e \<Rightarrow> (Some e, cl', aiState)
                 | Inr r \<Rightarrow>
                    (None, cl',
                     done_state
                       (with_message
                          \<lparr>id_message = nanoid, role = ''system'',
                           content =
                             Str (''[User performed action: '' @ action @ ''. Details: ''
                                  @ interpolate r @ '']''),
                           name = None\<rparr>
                          aiState)
                       aiState)))))"

section \<open>submitUserMessage\<close>

text \<open>
  One increment of the model's stream, the argument \<open>{ content, done, delta }\<close> of the
  \<open>text\<close> callback.
\<close>

record increment =
  content_inc :: string
  done_inc :: bool
  delta_inc :: string

text \<open>
  The variables \<open>textStream\<close> and \<open>textNode\<close> that the callback closes over, both
  \<open>undefined\<close> before the first call.
\<close>

record text_closure =
  textStream :: "string streamable option"
  textNode :: "node option"

text \<open>
  The \<open>text\<close> callback. The first call creates the stream with the initial value \<open>''\<close>. A
  terminal increment closes the stream and then appends the assistant message with
  \<open>aiState.done\<close>; any other increment writes its delta to the stream. An exception leaves
  the closure and the store as they were: only a write to a closed stream raises, and then
  the stream existed before the call. The callback returns \<open>textNode\<close>, which is read from
  the closure.
\<close>

definition text_callback ::
  "string \<Rightarrow> increment \<Rightarrow> text_closure \<times> MutableAIState
     \<Rightarrow> error + text_closure \<times> MutableAIState" where
  "text_callback nanoid inc = (\<lambda>(cl, aiState).
     let cl1 = (case textStream cl of
                  None \<Rightarrow> \<lparr>textStream = Some (createStreamableValue ''''),
                            textNode = Some BotMessageStream\<rparr>
                | Some _ \<Rightarrow> cl)
     in case textStream cl1 of
          None \<Rightarrow> Inl TypeError
        | Some ts \<Rightarrow>
           (if done_inc inc then
              (case done_stream ts of
                 Inl e \<Rightarrow> Inl e
               | Inr ts' \<Rightarrow>
                  Inr (cl1\<lparr>textStream := Some ts'\<rparr>,
                       done_state
                         (with_message
                            \<lparr>id_message = nanoid, role = ''assistant'',
                             content = Str (content_inc inc), name = None\<rparr>
                            aiState)
                         aiState))
            else
              (case update_stream (delta_inc inc) ts of
                 Inl e \<Rightarrow> Inl e
               | Inr ts' \<Rightarrow> Inr (cl1\<lparr>textStream := Some ts'\<rparr>, aiState))))"

text \<open>
  Modelled from the spec: \<open>streamUI\<close> comes from \<open>ai/rsc\<close>. It calls the \<open>text\<close> callback
  once for each increment of the model's stream, in arrival order, and stops at the first
  call that raises. The result is the exception, if any, and the state reached.
\<close>

fun deliver ::
  "string \<Rightarrow> increment list \<Rightarrow> text_closure \<times> MutableAIState
     \<Rightarrow> error option \<times> text_closure \<times> MutableAIState" where
  "deliver nanoid [] s = (None, s)"
| "deliver nanoid (inc # incs) s =
     (case text_callback nanoid inc s of
        Inl e \<Rightarrow> (Some e, s)
      | Inr s' \<Rightarrow> deliver nanoid incs s')"

text \<open>
  The element \<open>{ role: message.role, content: message.content, name: message.name }\<close> of
  the \<open>messages\<close> option of the model call.
\<close>

definition model_message :: "message \<Rightarrow> string \<times> content \<times> string option" where
  "model_message message = (role message, content message, name message)"

text \<open>
  What a run of \<open>submitUserMessage\<close> leaves behind: the history sent to the model, the
  exception of a callback (if any), the closure, the store and the returned entry.
\<close>

record submit_result =
  history :: "(string \<times> content \<times> string option) list"
  failure :: "error option"
  closure :: text_closure
  store :: MutableAIState
  returned :: ui_entry

text \<open>
  \<open>submitUserMessage(content)\<close>, with the three identifiers that its \<open>nanoid()\<close> calls draw
  (for the user message, for the assistant message and for the returned entry) and with the
  increments that the model's stream delivers. The user message is appended with
  \<open>aiState.update\<close>; the history is read from the store after that append. The returned
  \<open>display\<close> is the value of the UI stream of \<open>streamUI\<close>: the initial spinner until the
  callback has returned a node.
\<close>

definition submitUserMessage ::
  "string \<Rightarrow> string \<times> string \<times> string \<Rightarrow> increment list \<Rightarrow> MutableAIState
     \<Rightarrow> submit_result" where
  "submitUserMessage content' ids incs aiState =
     (case ids of (id_user, id_assistant, id_returned) \<Rightarrow>
      let aiState1 =
            update_state
              (with_message
                 \<lparr>id_message = id_user, role = ''user'', content = Str content',
                  name = None\<rparr>
                 aiState)
              aiState;
          sent = map model_message (messages (get aiState1));
          (failed, cl, aiState2) =
            deliver id_assistant incs (\<lparr>textStream = None, textNode = None\<rparr>, aiState1)
      in \<lparr>history = sent, failure = failed, closure = cl, store = aiState2,
          returned =
            \<lparr>id_ui = id_returned,
             display = (case textNode cl of None \<Rightarrow> SpinnerMessage | Some n \<Rightarrow> n)\<rparr>\<rparr>)"

section \<open>Persistence\<close>

text \<open>
  The session that \<open>auth()\<close> resolves to is \<open>null\<close> or an object whose \<open>user\<close> may be
  missing; the handler reads \<open>session.user.id\<close>.
\<close>

record session_user =
  id_session_user :: string

record session =
  user :: "session_user option"

text \<open>The record passed to \<open>saveChat\<close>; \<open>createdAt\<close> is the clock reading of \<open>new Date()\<close>.\<close>

record chat =
  id_chat :: string
  title :: string
  userId :: string
  createdAt :: nat
  messages_chat :: "message list"
  path :: string

text \<open>
  The \<open>onSetAIState\<close> handler. \<open>Inr (Some chat)\<close>: \<open>saveChat(chat)\<close> was called;
  \<open>Inr None\<close>: the handler returned without calling it; \<open>Inl TypeError\<close>: the handler threw
  before the call, at \<open>messages[0].content\<close> when there is no first message or at
  \<open>.substring\<close> when the first content is not a string.
\<close>

definition onSetAIState :: "session option \<Rightarrow> nat \<Rightarrow> AIState \<Rightarrow> error + chat option" where
  "onSetAIState auth now state =
     (case auth of
        None \<Rightarrow> Inr None
      | Some session \<Rightarrow>
         (case user session of
            None \<Rightarrow> Inr None
          | Some u \<Rightarrow>
             (case messages state of
                [] \<Rightarrow> Inl TypeError
              | first # _ \<Rightarrow>
                 (case content first of
                    Parts _ \<Rightarrow> Inl TypeError
                  | Str firstMessageContent \<Rightarrow>
                     Inr (Some \<lparr>id_chat = chatId state,
                                title = take 100 firstMessageContent,
                                userId = id_session_user u,
                                createdAt = now,
                                messages_chat = messages state,
                                path = ''/chat/'' @ chatId state\<rparr>)))))"

section \<open>Auxiliary facts\<close>

subsection \<open>The projection, by columns\<close>

lemma map_display_entries:
  "map display (map (\<lambda>(i, m). \<lparr>id_ui = f i, display = g m\<rparr>) (enumerate n xs)) = map g xs"
  by (induction xs arbitrary: n) simp_all

lemma map_id_entries:
  "map id_ui (map (\<lambda>(i, m). \<lparr>id_ui = f i, display = g m\<rparr>) (enumerate n xs))
     = map f [n..<n + length xs]"
  by (induction xs arbitrary: n) (simp_all add: upt_rec)

lemma entries_eqI:
  fixes xs ys :: "ui_entry list"
  assumes "map id_ui xs = map id_ui ys" and "map display xs = map display ys"
  shows "xs = ys"
  using assms
proof (induction xs arbitrary: ys)
  case Nil
  then show ?case by simp
next
  case (Cons x xs)
  then show ?case by (cases ys) auto
qed

lemma getUI_display:
  "map display (getUIStateFromAIState S)
     = map display_of (filter (\<lambda>m. role m \<noteq> ''system'') (messages S))"
  unfolding getUIStateFromAIState_def by (rule map_display_entries)

lemma getUI_ids:
  "map id_ui (getUIStateFromAIState S)
     = map (\<lambda>i. chatId S @ ''-'' @ toString i)
         [0..<length (filter (\<lambda>m. role m \<noteq> ''system'') (messages S))]"
  unfolding getUIStateFromAIState_def map_id_entries by simp

lemma getUI_length:
  "length (getUIStateFromAIState S) = length (filter (\<lambda>m. role m \<noteq> ''system'') (messages S))"
  unfolding getUIStateFromAIState_def by simp

lemma getUI_snoc:
  "getUIStateFromAIState (S\<lparr>messages := messages S @ [m]\<rparr>) =
     (if role m = ''system'' then getUIStateFromAIState S
      else getUIStateFromAIState S @
             [\<lparr>id_ui = chatId S @ ''-'' @ toString (length (getUIStateFromAIState S)),
               display = display_of m\<rparr>])"
  by (rule entries_eqI) (simp_all add: getUI_ids getUI_display getUI_length)

lemma getUI_ignores_message_ids:
  "getUIStateFromAIState (S\<lparr>messages := map (\<lambda>m. m\<lparr>id_message := f m\<rparr>) (messages S)\<rparr>)
     = getUIStateFromAIState S"
  by (rule entries_eqI) (simp_all add: getUI_ids getUI_display filter_map o_def display_of_def)

lemma getUI_removal_ids:
  assumes "role x \<noteq> ''system''"
  shows "map id_ui (getUIStateFromAIState (S\<lparr>messages := pre @ rest\<rparr>))
           = butlast (map id_ui (getUIStateFromAIState (S\<lparr>messages := pre @ x # rest\<rparr>)))"
  using assms by (simp add: getUI_ids map_butlast [symmetric])

lemma getUI_removal_display:
  assumes "role x \<noteq> ''system''"
  shows "map display (getUIStateFromAIState (S\<lparr>messages := pre @ rest\<rparr>))
           = take (length (filter (\<lambda>m. role m \<noteq> ''system'') pre))
               (map display (getUIStateFromAIState (S\<lparr>messages := pre @ x # rest\<rparr>)))
             @ drop (Suc (length (filter (\<lambda>m. role m \<noteq> ''system'') pre)))
                 (map display (getUIStateFromAIState (S\<lparr>messages := pre @ x # rest\<rparr>)))"
  using assms by (simp add: getUI_display)

subsection \<open>The text callback and the delivery of a stream\<close>

lemma text_callback_delta:
  assumes "\<not> done_inc inc" and "textStream cl = Some ts" and "\<not> closed ts"
  shows "text_callback n inc (cl, ai)
           = Inr (cl\<lparr>textStream := Some \<lparr>held = delta_inc inc, closed = False\<rparr>\<rparr>, ai)"
  using assms by (simp add: text_callback_def update_stream_def)

lemma text_callback_terminal:
  assumes "done_inc inc" and "textStream cl = Some ts" and "\<not> closed ts"
  shows "text_callback n inc (cl, ai) =
           Inr (cl\<lparr>textStream := Some \<lparr>held = held ts, closed = True\<rparr>\<rparr>,
                done_state
                  (with_message
                     \<lparr>id_message = n, role = ''assistant'', content = Str (content_inc inc),
                      name = None\<rparr> ai)
                  ai)"
  using assms by (simp add: text_callback_def done_stream_def)

lemma text_callback_first:
  "text_callback n inc (\<lparr>textStream = None, textNode = None\<rparr>, ai) =
   text_callback n inc
     (\<lparr>textStream = Some (createStreamableValue ''''), textNode = Some BotMessageStream\<rparr>, ai)"
  by (simp add: text_callback_def)

lemma deliver_first:
  assumes "incs \<noteq> []"
  shows "deliver n incs (\<lparr>textStream = None, textNode = None\<rparr>, ai) =
         deliver n incs
           (\<lparr>textStream = Some (createStreamableValue ''''), textNode = Some BotMessageStream\<rparr>,
            ai)"
proof (cases incs)
  case Nil
  then show ?thesis using assms by simp
next
  case (Cons inc rest)
  let ?c = "\<lparr>textStream = Some (createStreamableValue ''''), textNode = Some BotMessageStream\<rparr>"
  have "\<exists>s'. text_callback n inc (?c, ai) = Inr s'"
    by (cases "done_inc inc")
       (simp_all add: text_callback_delta text_callback_terminal createStreamableValue_def
          createStreamable_def)
  then show ?thesis
    using Cons by (auto simp add: text_callback_first)
qed

lemma deliver_deltas:
  assumes "\<forall>i\<in>set incs. \<not> done_inc i" and "textStream cl = Some ts" and "\<not> closed ts"
    and "incs \<noteq> []"
  shows "deliver n incs (cl, ai)
           = (None,
              cl\<lparr>textStream := Some \<lparr>held = delta_inc (last incs), closed = False\<rparr>\<rparr>, ai)"
  using assms
proof (induction incs arbitrary: cl ts)
  case Nil
  then show ?case by simp
next
  case (Cons inc incs)
  let ?ts = "\<lparr>held = delta_inc inc, closed = False\<rparr>"
  let ?cl = "cl\<lparr>textStream := Some ?ts\<rparr>"
  have step: "text_callback n inc (cl, ai) = Inr (?cl, ai)"
    using Cons.prems by (simp add: text_callback_delta)
  show ?case
  proof (cases "incs = []")
    case True
    with step show ?thesis by simp
  next
    case False
    have "deliver n incs (?cl, ai)
            = (None,
               ?cl\<lparr>textStream := Some \<lparr>held = delta_inc (last incs), closed = False\<rparr>\<rparr>, ai)"
      using Cons.prems False by (intro Cons.IH [where ts = ?ts]) simp_all
    with step False show ?thesis by simp
  qed
qed

lemma deliver_open:
  assumes "\<forall>i\<in>set incs. \<not> done_inc i" and "incs \<noteq> []"
  shows "deliver n incs (\<lparr>textStream = None, textNode = None\<rparr>, ai) =
     (None,
      \<lparr>textStream = Some \<lparr>held = delta_inc (last incs), closed = False\<rparr>,
       textNode = Some BotMessageStream\<rparr>,
      ai)"
proof -
  let ?s0 = "createStreamableValue ''''"
  let ?c0 = "\<lparr>textStream = Some ?s0, textNode = Some BotMessageStream\<rparr>"
  have "deliver n incs (?c0, ai)
          = (None,
             ?c0\<lparr>textStream := Some \<lparr>held = delta_inc (last incs), closed = False\<rparr>\<rparr>, ai)"
    using assms
    by (intro deliver_deltas [where ts = ?s0])
       (simp_all add: createStreamableValue_def createStreamable_def)
  then show ?thesis
    using assms(2) by (simp add: deliver_first)
qed

lemma deliver_append:
  "deliver n (xs @ ys) s =
     (case deliver n xs s of
        (None, s') \<Rightarrow> deliver n ys s'
      | (Some e, s') \<Rightarrow> (Some e, s'))"
  by (induction xs arbitrary: s) (simp_all split: sum.splits)

lemma deliver_complete:
  assumes "\<forall>i\<in>set incs. \<not> done_inc i" and "done_inc final"
  shows "deliver n (incs @ [final]) (\<lparr>textStream = None, textNode = None\<rparr>, ai) =
     (None,
      \<lparr>textStream = Some \<lparr>held = last ('''' # map delta_inc incs), closed = True\<rparr>,
       textNode = Some BotMessageStream\<rparr>,
      done_state
        (with_message
           \<lparr>id_message = n, role = ''assistant'', content = Str (content_inc final),
            name = None\<rparr> ai)
        ai)"
proof (cases "incs = []")
  case True
  then show ?thesis
    using assms(2)
    by (simp add: text_callback_first text_callback_terminal createStreamableValue_def
        createStreamable_def)
next
  case False
  then have "last ('''' # map delta_inc incs) = delta_inc (last incs)"
    by (simp add: last_map)
  with False assms show ?thesis
    by (simp add: deliver_append deliver_open text_callback_terminal)
qed

lemma text_callback_prefix:
  assumes "text_callback n inc (cl, ai) = Inr (cl', ai')"
  shows "prefix (messages (currentState ai)) (messages (currentState ai'))"
  using assms
  by (auto simp add: text_callback_def done_state_def with_message_def get_def Let_def
      split: option.splits sum.splits if_splits)

lemma deliver_prefix:
  "prefix (messages (currentState ai))
     (messages (currentState (snd (snd (deliver n incs (cl, ai))))))"
proof (induction incs arbitrary: cl ai)
  case Nil
  then show ?case by simp
next
  case (Cons inc incs)
  show ?case
  proof (cases "text_callback n inc (cl, ai)")
    case (Inl e)
    then show ?thesis by simp
  next
    case (Inr s')
    obtain cl' ai' where s': "s' = (cl', ai')" by (cases s')
    from Inr s' have "prefix (messages (currentState ai)) (messages (currentState ai'))"
      by (auto dest: text_callback_prefix)
    moreover have "prefix (messages (currentState ai'))
                     (messages (currentState (snd (snd (deliver n incs (cl', ai'))))))"
      by (rule Cons.IH)
    ultimately show ?thesis using Inr s' by (auto intro: prefix_order.trans)
  qed
qed

subsection \<open>submitUserMessage, field by field\<close>

lemma submit_unfold:
  "submitUserMessage c (u, a, r) incs ai =
     \<lparr>history = map model_message (messages (currentState ai)) @ [(''user'', Str c, None)],
      failure = fst (deliver a incs (\<lparr>textStream = None, textNode = None\<rparr>,
                  update_state
                    (with_message
                       \<lparr>id_message = u, role = ''user'', content = Str c, name = None\<rparr> ai)
                    ai)),
      closure = fst (snd (deliver a incs (\<lparr>textStream = None, textNode = None\<rparr>,
                  update_state
                    (with_message
                       \<lparr>id_message = u, role = ''user'', content = Str c, name = None\<rparr> ai)
                    ai))),
      store = snd (snd (deliver a incs (\<lparr>textStream = None, textNode = None\<rparr>,
                  update_state
                    (with_message
                       \<lparr>id_message = u, role = ''user'', content = Str c, name = None\<rparr> ai)
                    ai))),
      returned =
        \<lparr>id_ui = r,
         display =
           (case textNode (fst (snd (deliver a incs (\<lparr>textStream = None, textNode = None\<rparr>,
                  update_state
                    (with_message
                       \<lparr>id_message = u, role = ''user'', content = Str c, name = None\<rparr> ai)
                    ai)))) of
              None \<Rightarrow> SpinnerMessage
            | Some n \<Rightarrow> n)\<rparr>\<rparr>"
  by (simp add: submitUserMessage_def Let_def split_def update_state_def with_message_def
      get_def model_message_def)

subsection \<open>The background task of performAction\<close>

lemma task_prefix:
  "prefix (messages (currentState ai))
     (messages (currentState (snd (snd (performAction_task js act d n (cl, ai))))))"
  by (simp add: performAction_task_def done_state_def with_message_def get_def Let_def
      split: sum.splits)

lemma task_throws:
  assumes "JSON_stringify D = Inl e"
  shows "snd (snd (performAction_task JSON_stringify A D n (cl, ai))) = ai"
  using assms by (simp add: performAction_task_def Let_def split: sum.splits)

lemma task_ends_iff:
  "fst (performAction_task JSON_stringify A D n (fst (performAction A n0), ai)) = None
     \<longleftrightarrow> (\<exists>r. JSON_stringify D = Inr r)"
  by (cases "JSON_stringify D")
     (simp_all add: performAction_task_def performAction_def createStreamableUI_def
        createStreamable_def update_stream_def done_stream_with_def Let_def)

section \<open>The claims\<close>

subsection \<open>C1\<close>

text \<open>
  C1, as amended. For every increment sequence delivered to the text callback of
  \<open>submitUserMessage\<close> that ends in a terminal increment, that is some non-terminal
  increments \<open>incs\<close> followed by one terminal increment \<open>final\<close>: each non-terminal
  increment's delta is put in the place of the value that the open stream holds, it is not
  joined to it, so before the terminal increment the stream is open and holds the last
  delta; the terminal increment closes the stream, which at that moment holds the delta of
  the last non-terminal increment, or the initial empty string when there was none. The
  full content declared by the terminal increment goes to the store, as the content of the
  assistant message appended after the user message.
\<close>

theorem stream_holds_last_delta_at_close:
  assumes "\<forall>i\<in>set incs. \<not> done_inc i" and "done_inc final"
  shows "(incs \<noteq> [] \<longrightarrow>
            textStream (closure (submitUserMessage c (u, a, r) incs aiState))
              = Some \<lparr>held = delta_inc (last incs), closed = False\<rparr>)
         \<and> textStream (closure (submitUserMessage c (u, a, r) (incs @ [final]) aiState))
             = Some \<lparr>held = last ('''' # map delta_inc incs), closed = True\<rparr>
         \<and> messages (currentState (store
               (submitUserMessage c (u, a, r) (incs @ [final]) aiState)))
             = messages (currentState aiState)
               @ [\<lparr>id_message = u, role = ''user'', content = Str c, name = None\<rparr>,
                  \<lparr>id_message = a, role = ''assistant'', content = Str (content_inc final),
                   name = None\<rparr>]"
  using assms
  by (simp add: submit_unfold deliver_complete deliver_open done_state_def update_state_def
      with_message_def get_def)

theorem stream_holds_last_delta_at_close_witness:
  "\<not> done_inc \<lparr>content_inc = ''Try'', done_inc = False, delta_inc = ''Try''\<rparr>
   \<and> \<not> done_inc \<lparr>content_inc = ''Try resting'', done_inc = False, delta_inc = '' resting''\<rparr>
   \<and> done_inc \<lparr>content_inc = ''Try resting'', done_inc = True, delta_inc = ''''\<rparr>
   \<and> textStream (closure (submitUserMessage ''hi'' (''u'', ''a'', ''r'')
         [\<lparr>content_inc = ''Try'', done_inc = False, delta_inc = ''Try''\<rparr>,
          \<lparr>content_inc = ''Try resting'', done_inc = False, delta_inc = '' resting''\<rparr>]
         \<lparr>currentState = \<lparr>chatId = ''c'', messages = []\<rparr>, committed = False\<rparr>))
       = Some \<lparr>held = '' resting'', closed = False\<rparr>
   \<and> textStream (closure (submitUserMessage ''hi'' (''u'', ''a'', ''r'')
         ([\<lparr>content_inc = ''Try'', done_inc = False, delta_inc = ''Try''\<rparr>,
           \<lparr>content_inc = ''Try resting'', done_inc = False, delta_inc = '' resting''\<rparr>]
          @ [\<lparr>content_inc = ''Try resting'', done_inc = True, delta_inc = ''''\<rparr>])
         \<lparr>currentState = \<lparr>chatId = ''c'', messages = []\<rparr>, committed = False\<rparr>))
       = Some \<lparr>held = '' resting'', closed = True\<rparr>
   \<and> messages (currentState (store (submitUserMessage ''hi'' (''u'', ''a'', ''r'')
         ([\<lparr>content_inc = ''Try'', done_inc = False, delta_inc = ''Try''\<rparr>,
           \<lparr>content_inc = ''Try resting'', done_inc = False, delta_inc = '' resting''\<rparr>]
          @ [\<lparr>content_inc = ''Try resting'', done_inc = True, delta_inc = ''''\<rparr>])
         \<lparr>currentState = \<lparr>chatId = ''c'', messages = []\<rparr>, committed = False\<rparr>)))
       = [\<lparr>id_message = ''u'', role = ''user'', content = Str ''hi'', name = None\<rparr>,
          \<lparr>id_message = ''a'', role = ''assistant'', content = Str ''Try resting'',
           name = None\<rparr>]"
  using stream_holds_last_delta_at_close
    [of "[\<lparr>content_inc = ''Try'', done_inc = False, delta_inc = ''Try''\<rparr>,
          \<lparr>content_inc = ''Try resting'', done_inc = False, delta_inc = '' resting''\<rparr>]"
        "\<lparr>content_inc = ''Try resting'', done_inc = True, delta_inc = ''''\<rparr>"
        "''hi''" "''u''" "''a''" "''r''"
        "\<lparr>currentState = \<lparr>chatId = ''c'', messages = []\<rparr>, committed = False\<rparr>"]
  by simp

text \<open>
  C1, as stated, fails. The stream delivers \<open>"Try"\<close>, then \<open>" resting"\<close>, then the terminal
  increment with the full content \<open>"Try resting"\<close>, which is the two deltas joined. When
  the stream is closed it holds \<open>" resting"\<close>, the last delta, not the full content.
\<close>

theorem stream_buffer_at_close_counterexample:
  "textStream (closure (submitUserMessage ''hi'' (''u'', ''a'', ''r'')
      [\<lparr>content_inc = ''Try'', done_inc = False, delta_inc = ''Try''\<rparr>,
       \<lparr>content_inc = ''Try resting'', done_inc = False, delta_inc = '' resting''\<rparr>,
       \<lparr>content_inc = ''Try resting'', done_inc = True, delta_inc = ''''\<rparr>]
      \<lparr>currentState = \<lparr>chatId = ''c'', messages = []\<rparr>, committed = False\<rparr>))
     = Some \<lparr>held = '' resting'', closed = True\<rparr>
   \<and> content_inc \<lparr>content_inc = ''Try resting'', done_inc = True, delta_inc = ''''\<rparr>
       = ''Try resting''
   \<and> '' resting'' \<noteq> ''Try resting''"
  by (simp add: submitUserMessage_def text_callback_def createStreamableValue_def
      createStreamable_def update_stream_def done_stream_def Let_def)

subsection \<open>C2\<close>

text \<open>
  C2. For every conversation state \<open>S\<close>, the projection has one entry for each message of \<open>S\<close>
  whose role is not \<open>'system'\<close>, in the order of those messages: its displays are the
  renderings of the non-system messages of \<open>S\<close>, in order, and it has as many entries as
  there are non-system messages. A system message gets no entry: appending one to the state
  leaves the projection as it is, and appending any other message adds exactly one entry at
  the end.
\<close>

theorem projection_is_non_system_messages_in_order:
  "map display (getUIStateFromAIState S)
     = map display_of (filter (\<lambda>m. role m \<noteq> ''system'') (messages S))
   \<and> length (getUIStateFromAIState S)
     = length (filter (\<lambda>m. role m \<noteq> ''system'') (messages S))
   \<and> getUIStateFromAIState (S\<lparr>messages := messages S @ [m]\<rparr>)
     = (if role m = ''system'' then getUIStateFromAIState S
        else getUIStateFromAIState S @
               [\<lparr>id_ui = chatId S @ ''-'' @ toString (length (getUIStateFromAIState S)),
                 display = display_of m\<rparr>])"
  using getUI_display [of S] getUI_length [of S] getUI_snoc [of S m] by simp

theorem projection_is_non_system_messages_in_order_witness:
  "map display (getUIStateFromAIState
     \<lparr>chatId = ''c'',
      messages = [\<lparr>id_message = ''m1'', role = ''user'', content = Str ''hi'', name = None\<rparr>,
                  \<lparr>id_message = ''m2'', role = ''system'', content = Str ''note'', name = None\<rparr>,
                  \<lparr>id_message = ''m3'', role = ''assistant'', content = Str ''yo'', name = None\<rparr>]\<rparr>)
     = [UserMessage (Str ''hi''), BotMessage ''yo'']
   \<and> length (getUIStateFromAIState
     \<lparr>chatId = ''c'',
      messages = [\<lparr>id_message = ''m1'', role = ''user'', content = Str ''hi'', name = None\<rparr>,
                  \<lparr>id_message = ''m2'', role = ''system'', content = Str ''note'', name = None\<rparr>,
                  \<lparr>id_message = ''m3'', role = ''assistant'', content = Str ''yo'', name = None\<rparr>]\<rparr>)
     = 2"
  using projection_is_non_system_messages_in_order
    [of "\<lparr>chatId = ''c'',
          messages = [\<lparr>id_message = ''m1'', role = ''user'', content = Str ''hi'', name = None\<rparr>,
                      \<lparr>id_message = ''m2'', role = ''system'', content = Str ''note'', name = None\<rparr>,
                      \<lparr>id_message = ''m3'', role = ''assistant'', content = Str ''yo'', name = None\<rparr>]\<rparr>"]
  by (simp add: display_of_def)

subsection \<open>C3\<close>

text \<open>
  C3, as amended. For every action name \<open>A\<close> and every details value \<open>D\<close> that
  \<open>JSON.stringify\<close> serializes without throwing, the background task of \<open>performAction\<close>
  reaches its terminal phase (both of its streams are closed, the status stream with
  "Action A completed successfully."), raises nothing and appends exactly one message to
  the store: its role is \<open>'system'\<close> and its content is
  \<open>"[User performed action: " + A + ". Details: " + JSON.stringify(D) + "]"\<close>, where a
  \<open>JSON.stringify(D)\<close> that is \<open>undefined\<close> reads \<open>undefined\<close>.
\<close>

theorem performAction_appends_when_serialized:
  assumes "JSON_stringify D = Inr r"
  shows "performAction_task JSON_stringify A D n (fst (performAction A n0), aiState) =
     (None,
      \<lparr>performingAction =
         \<lparr>held = StatusNode False (''Action '' @ A @ '' completed successfully.''),
          closed = True\<rparr>,
       systemMessage =
         \<lparr>held = SystemMessage (''The action '' @ A @ '' has been completed successfully.''),
          closed = True\<rparr>\<rparr>,
      aiState
        \<lparr>currentState :=
           (currentState aiState)
             \<lparr>messages := messages (currentState aiState) @
                [\<lparr>id_message = n, role = ''system'',
                  content =
                    Str (''[User performed action: '' @ A @ ''. Details: ''
                         @ (case r of Some s \<Rightarrow> s | None \<Rightarrow> ''undefined'') @ '']''),
                  name = None\<rparr>]\<rparr>,
         committed := True\<rparr>)"
  using assms
  by (cases r)
     (simp_all add: performAction_task_def performAction_def createStreamableUI_def
        createStreamable_def update_stream_def done_stream_with_def done_state_def
        with_message_def get_def Let_def)

theorem performAction_appends_when_serialized_witness:
  \<open>performAction_task
     (\<lambda>details :: (string \<times> string) list. Inr (Some ''{"bp":"120/80"}''))
     ''check vitals'' [(''bp'', ''120/80'')] ''m1''
     (fst (performAction ''check vitals'' ''m0''),
      \<lparr>currentState = \<lparr>chatId = ''c'', messages = []\<rparr>, committed = False\<rparr>)
   = (None,
      \<lparr>performingAction =
         \<lparr>held = StatusNode False ''Action check vitals completed successfully.'',
          closed = True\<rparr>,
       systemMessage =
         \<lparr>held = SystemMessage ''The action check vitals has been completed successfully.'',
          closed = True\<rparr>\<rparr>,
      \<lparr>currentState =
         \<lparr>chatId = ''c'',
          messages =
            [\<lparr>id_message = ''m1'', role = ''system'',
              content = Str ''[User performed action: check vitals. Details: {"bp":"120/80"}]'',
              name = None\<rparr>]\<rparr>,
       committed = True\<rparr>)\<close>
  using performAction_appends_when_serialized
    [of \<open>\<lambda>details :: (string \<times> string) list. Inr (Some ''{"bp":"120/80"}'')\<close>
        \<open>[(''bp'', ''120/80'')]\<close> \<open>Some ''{"bp":"120/80"}''\<close> \<open>''check vitals''\<close> \<open>''m1''\<close> \<open>''m0''\<close>
        \<open>\<lparr>currentState = \<lparr>chatId = ''c'', messages = []\<rparr>, committed = False\<rparr>\<close>]
  by simp

text \<open>
  C3, as stated, fails. \<open>performAction("check vitals", 10n)\<close>: the task reaches its
  terminal phase, both streams are closed and the status stream reads "Action check vitals
  completed successfully.", then \<open>JSON.stringify(10n)\<close> throws while the argument of
  \<open>aiState.done\<close> is built. No message is appended: the store is as it was.
\<close>

theorem performAction_BigInt_counterexample:
  "performAction_task JSON_stringify_BigInt ''check vitals'' 10 ''m1''
     (fst (performAction ''check vitals'' ''m0''),
      \<lparr>currentState = \<lparr>chatId = ''c'', messages = []\<rparr>, committed = False\<rparr>)
   = (Some TypeError,
      \<lparr>performingAction =
         \<lparr>held = StatusNode False ''Action check vitals completed successfully.'',
          closed = True\<rparr>,
       systemMessage =
         \<lparr>held = SystemMessage ''The action check vitals has been completed successfully.'',
          closed = True\<rparr>\<rparr>,
      \<lparr>currentState = \<lparr>chatId = ''c'', messages = []\<rparr>, committed = False\<rparr>)"
  by (simp add: performAction_task_def performAction_def createStreamableUI_def
      createStreamable_def update_stream_def done_stream_with_def JSON_stringify_BigInt_def
      Let_def)

subsection \<open>C4\<close>

text \<open>
  C4. Starting from a conversation state with an empty message list,
  \<open>submitUserMessage("I have a headache")\<close> followed by a model stream that completes with
  the full content \<open>"Try resting and hydrating"\<close> leaves exactly two messages in the store,
  in this order: the user message with content \<open>"I have a headache"\<close> and the assistant
  message with content \<open>"Try resting and hydrating"\<close>.
\<close>

theorem scenario_headache:
  assumes "\<forall>i\<in>set incs. \<not> done_inc i" and "done_inc final"
    and "content_inc final = ''Try resting and hydrating''"
  shows "messages (currentState (store
           (submitUserMessage ''I have a headache'' (u, a, r) (incs @ [final])
              \<lparr>currentState = \<lparr>chatId = c, messages = []\<rparr>, committed = k\<rparr>)))
         = [\<lparr>id_message = u, role = ''user'', content = Str ''I have a headache'',
             name = None\<rparr>,
            \<lparr>id_message = a, role = ''assistant'', content = Str ''Try resting and hydrating'',
             name = None\<rparr>]"
  using assms
  by (simp add: submit_unfold deliver_complete done_state_def update_state_def
      with_message_def get_def)

theorem scenario_headache_witness:
  "\<not> done_inc \<lparr>content_inc = ''Try resting'', done_inc = False, delta_inc = ''Try resting''\<rparr>
   \<and> \<not> done_inc \<lparr>content_inc = ''Try resting and hydrating'', done_inc = False,
                   delta_inc = '' and hydrating''\<rparr>
   \<and> done_inc \<lparr>content_inc = ''Try resting and hydrating'', done_inc = True, delta_inc = ''''\<rparr>
   \<and> content_inc
         \<lparr>content_inc = ''Try resting and hydrating'', done_inc = True, delta_inc = ''''\<rparr>
       = ''Try resting and hydrating''
   \<and> messages (currentState (store
         (submitUserMessage ''I have a headache'' (''m1'', ''m2'', ''m3'')
            ([\<lparr>content_inc = ''Try resting'', done_inc = False, delta_inc = ''Try resting''\<rparr>,
              \<lparr>content_inc = ''Try resting and hydrating'', done_inc = False,
               delta_inc = '' and hydrating''\<rparr>]
             @ [\<lparr>content_inc = ''Try resting and hydrating'', done_inc = True,
                 delta_inc = ''''\<rparr>])
            \<lparr>currentState = \<lparr>chatId = ''c'', messages = []\<rparr>, committed = False\<rparr>)))
       = [\<lparr>id_message = ''m1'', role = ''user'', content = Str ''I have a headache'',
           name = None\<rparr>,
          \<lparr>id_message = ''m2'', role = ''assistant'',
           content = Str ''Try resting and hydrating'', name = None\<rparr>]"
  using scenario_headache
    [of "[\<lparr>content_inc = ''Try resting'', done_inc = False, delta_inc = ''Try resting''\<rparr>,
          \<lparr>content_inc = ''Try resting and hydrating'', done_inc = False,
           delta_inc = '' and hydrating''\<rparr>]"
        "\<lparr>content_inc = ''Try resting and hydrating'', done_inc = True, delta_inc = ''''\<rparr>"
        "''m1''" "''m2''" "''m3''" "''c''" False]
  by simp

subsection \<open>C5\<close>

text \<open>
  C5. Every writer of the store keeps the messages that were stored before, unchanged and
  in their order, as a prefix of the new message list. The user append of
  \<open>submitUserMessage\<close> puts one message after them; the delivery of any increments to the
  text callback (the assistant append), a whole run of \<open>submitUserMessage\<close> and the
  background task of \<open>performAction\<close> (the system append) each leave a list that starts
  with the old one.
\<close>

theorem appends_preserve_prefix:
  "messages (currentState (store (submitUserMessage c (u, a, r) [] aiState)))
     = messages (currentState aiState)
       @ [\<lparr>id_message = u, role = ''user'', content = Str c, name = None\<rparr>]
   \<and> prefix (messages (currentState aiState))
        (messages (currentState (snd (snd (deliver n incs (cl, aiState))))))
   \<and> prefix (messages (currentState aiState))
        (messages (currentState (store (submitUserMessage c (u, a, r) incs aiState))))
   \<and> prefix (messages (currentState aiState))
        (messages (currentState
           (snd (snd (performAction_task JSON_stringify act d n (acl, aiState))))))"
proof -
  let ?user = "\<lparr>id_message = u, role = ''user'', content = Str c, name = None\<rparr>"
  let ?ai1 = "update_state (with_message ?user aiState) aiState"
  have m1: "messages (currentState ?ai1) = messages (currentState aiState) @ [?user]"
    by (simp add: update_state_def with_message_def get_def)
  have "prefix (messages (currentState ?ai1))
          (messages (currentState (store (submitUserMessage c (u, a, r) incs aiState))))"
    by (simp add: submit_unfold deliver_prefix)
  then have whole: "prefix (messages (currentState aiState))
          (messages (currentState (store (submitUserMessage c (u, a, r) incs aiState))))"
    unfolding m1 by (rule append_prefixD)
  have first: "messages (currentState (store (submitUserMessage c (u, a, r) [] aiState)))
                 = messages (currentState aiState) @ [?user]"
    by (simp add: submit_unfold m1)
  from first whole show ?thesis
    by (simp add: deliver_prefix task_prefix)
qed

theorem appends_preserve_prefix_witness:
  "messages (currentState (store (submitUserMessage ''and now?'' (''m2'', ''m3'', ''m4'') []
      \<lparr>currentState =
         \<lparr>chatId = ''c'',
          messages = [\<lparr>id_message = ''m1'', role = ''user'', content = Str ''hi'',
                       name = None\<rparr>]\<rparr>,
       committed = False\<rparr>)))
     = [\<lparr>id_message = ''m1'', role = ''user'', content = Str ''hi'', name = None\<rparr>,
        \<lparr>id_message = ''m2'', role = ''user'', content = Str ''and now?'', name = None\<rparr>]
   \<and> prefix [\<lparr>id_message = ''m1'', role = ''user'', content = Str ''hi'', name = None\<rparr>]
        (messages (currentState (store (submitUserMessage ''and now?'' (''m2'', ''m3'', ''m4'')
           [\<lparr>content_inc = ''ok'', done_inc = True, delta_inc = ''''\<rparr>]
           \<lparr>currentState =
              \<lparr>chatId = ''c'',
               messages = [\<lparr>id_message = ''m1'', role = ''user'', content = Str ''hi'',
                            name = None\<rparr>]\<rparr>,
            committed = False\<rparr>))))"
  using appends_preserve_prefix
    [of "''and now?''" "''m2''" "''m3''" "''m4''"
        "\<lparr>currentState =
            \<lparr>chatId = ''c'',
             messages = [\<lparr>id_message = ''m1'', role = ''user'', content = Str ''hi'',
                          name = None\<rparr>]\<rparr>,
          committed = False\<rparr>"
        "''m3''" "[\<lparr>content_inc = ''ok'', done_inc = True, delta_inc = ''''\<rparr>]"
        "\<lparr>textStream = None, textNode = None\<rparr>"
        "\<lambda>details :: unit. Inr None" "''rest''" "()"
        "fst (performAction ''rest'' ''m0'')"]
  by simp

subsection \<open>C6\<close>

text \<open>
  C6. Whenever the \<open>onSetAIState\<close> handler calls \<open>saveChat\<close>, the state it was given has at
  least one message, the chat record carries exactly those messages, and the session has a
  user, whose id is the record's \<open>userId\<close>. With an empty message list the handler throws at
  \<open>messages[0].content\<close> before it reaches \<open>saveChat\<close>.
\<close>

theorem saveChat_only_with_messages_and_identity:
  assumes "onSetAIState auth now state = Inr (Some chat)"
  shows "messages state \<noteq> [] \<and> messages_chat chat = messages state
         \<and> (\<exists>session u. auth = Some session \<and> user session = Some u
                \<and> userId chat = id_session_user u)"
  using assms
  by (auto simp add: onSetAIState_def split: option.splits list.splits content.splits)

theorem saveChat_only_with_messages_and_identity_witness:
  "onSetAIState (Some \<lparr>user = Some \<lparr>id_session_user = ''u1''\<rparr>\<rparr>) 7
     \<lparr>chatId = ''c'',
      messages = [\<lparr>id_message = ''m1'', role = ''user'', content = Str ''hi'', name = None\<rparr>]\<rparr>
     = Inr (Some \<lparr>id_chat = ''c'', title = ''hi'', userId = ''u1'', createdAt = 7,
                  messages_chat = [\<lparr>id_message = ''m1'', role = ''user'', content = Str ''hi'',
                                    name = None\<rparr>],
                  path = ''/chat/c''\<rparr>)
   \<and> messages \<lparr>chatId = ''c'',
        messages = [\<lparr>id_message = ''m1'', role = ''user'', content = Str ''hi'',
                     name = None\<rparr>]\<rparr> \<noteq> []
   \<and> (\<exists>session u. Some \<lparr>user = Some \<lparr>id_session_user = ''u1''\<rparr>\<rparr> = Some session
          \<and> user session = Some u \<and> ''u1'' = id_session_user u)"
proof -
  have saved: "onSetAIState (Some \<lparr>user = Some \<lparr>id_session_user = ''u1''\<rparr>\<rparr>) 7
     \<lparr>chatId = ''c'',
      messages = [\<lparr>id_message = ''m1'', role = ''user'', content = Str ''hi'', name = None\<rparr>]\<rparr>
     = Inr (Some \<lparr>id_chat = ''c'', title = ''hi'', userId = ''u1'', createdAt = 7,
                  messages_chat = [\<lparr>id_message = ''m1'', role = ''user'', content = Str ''hi'',
                                    name = None\<rparr>],
                  path = ''/chat/c''\<rparr>)"
    by (simp add: onSetAIState_def)
  from saveChat_only_with_messages_and_identity [OF saved] saved show ?thesis
    by simp
qed

subsection \<open>C7\<close>

text \<open>
  C7. For every state, when the session is absent or has no user, \<open>onSetAIState\<close> returns
  without calling \<open>saveChat\<close> and without raising: no chat record is written and no error is
  thrown.
\<close>

theorem unauthenticated_is_silent_noop:
  assumes "auth = None \<or> (\<exists>session. auth = Some session \<and> user session = None)"
  shows "onSetAIState auth now state = Inr None"
  using assms by (auto simp add: onSetAIState_def)

theorem unauthenticated_is_silent_noop_witness:
  "((None :: session option) = None
      \<or> (\<exists>session. (None :: session option) = Some session \<and> user session = None))
   \<and> onSetAIState None 7 \<lparr>chatId = ''c'', messages = []\<rparr> = Inr None
   \<and> (Some \<lparr>user = None\<rparr> = None
      \<or> (\<exists>session. Some \<lparr>user = None\<rparr> = Some session \<and> user session = None))
   \<and> onSetAIState (Some \<lparr>user = None\<rparr>) 7
        \<lparr>chatId = ''c'',
         messages = [\<lparr>id_message = ''m1'', role = ''user'', content = Str ''hi'',
                      name = None\<rparr>]\<rparr>
       = Inr None"
  using unauthenticated_is_silent_noop [of None 7 "\<lparr>chatId = ''c'', messages = []\<rparr>"]
    unauthenticated_is_silent_noop
      [of "Some \<lparr>user = None\<rparr>" 7
          "\<lparr>chatId = ''c'',
            messages = [\<lparr>id_message = ''m1'', role = ''user'', content = Str ''hi'',
                         name = None\<rparr>]\<rparr>"]
  by simp

subsection \<open>C8\<close>

text \<open>
  C8. For every conversation state, the history that \<open>submitUserMessage\<close> sends to the model
  has one \<open>(role, content, name)\<close> tuple for every message in the store, in store order: the
  role, the content and the name of each message stored before, followed by the tuple of
  the new user message, which has no name. That is the store at the moment of the call. No
  role is filtered out: the system records of the history are exactly the system records
  stored before.
\<close>

theorem history_includes_all_roles:
  "history (submitUserMessage c (u, a, r) incs aiState)
     = map (\<lambda>m. (role m, content m, name m)) (messages (currentState aiState))
       @ [(''user'', Str c, None)]
   \<and> history (submitUserMessage c (u, a, r) incs aiState)
     = map (\<lambda>m. (role m, content m, name m))
         (messages (currentState (store (submitUserMessage c (u, a, r) [] aiState))))
   \<and> filter (\<lambda>(role', _). role' = ''system'')
        (history (submitUserMessage c (u, a, r) incs aiState))
     = map (\<lambda>m. (role m, content m, name m))
         (filter (\<lambda>m. role m = ''system'') (messages (currentState aiState)))"
  by (simp add: submit_unfold update_state_def with_message_def get_def model_message_def
      filter_map o_def)

theorem history_includes_all_roles_witness:
  "history (submitUserMessage ''and now?'' (''m4'', ''m5'', ''m6'') []
      \<lparr>currentState =
         \<lparr>chatId = ''c'',
          messages = [\<lparr>id_message = ''m1'', role = ''user'', content = Str ''hi'',
                       name = Some ''ana''\<rparr>,
                      \<lparr>id_message = ''m2'', role = ''system'',
                       content = Str ''[User performed action: rest. Details: {}]'',
                       name = None\<rparr>,
                      \<lparr>id_message = ''m3'', role = ''assistant'', content = Parts [''a'', ''b''],
                       name = Some ''bot''\<rparr>]\<rparr>,
       committed = True\<rparr>)
   = [(''user'', Str ''hi'', Some ''ana''),
      (''system'', Str ''[User performed action: rest. Details: {}]'', None),
      (''assistant'', Parts [''a'', ''b''], Some ''bot''),
      (''user'', Str ''and now?'', None)]"
  using history_includes_all_roles
    [of "''and now?''" "''m4''" "''m5''" "''m6''" "[]"
        "\<lparr>currentState =
            \<lparr>chatId = ''c'',
             messages = [\<lparr>id_message = ''m1'', role = ''user'', content = Str ''hi'',
                          name = Some ''ana''\<rparr>,
                         \<lparr>id_message = ''m2'', role = ''system'',
                          content = Str ''[User performed action: rest. Details: {}]'',
                          name = None\<rparr>,
                         \<lparr>id_message = ''m3'', role = ''assistant'',
                          content = Parts [''a'', ''b''], name = Some ''bot''\<rparr>]\<rparr>,
          committed = True\<rparr>"]
  by simp

subsection \<open>C9\<close>

text \<open>
  C9. For every state that is persisted (the session has a user) and whose first message
  has a string as content, \<open>saveChat\<close> is called with a chat record whose title is the
  first 100 characters of that content, the whole content when it has 100 characters or
  fewer, and whose path is \<open>"/chat/"\<close> followed by the chatId. The example is a first
  message of 150 characters.
\<close>

theorem persisted_title_and_path:
  assumes "auth = Some session" and "user session = Some u"
    and "messages state = first # rest" and "content first = Str c"
  shows "\<exists>chat. onSetAIState auth now state = Inr (Some chat)
           \<and> title chat = take 100 c
           \<and> (length c \<le> 100 \<longrightarrow> title chat = c)
           \<and> path chat = ''/chat/'' @ chatId state"
  using assms by (simp add: onSetAIState_def)

theorem persisted_title_and_path_witness:
  "length (''01234567890123456789012345678901234567890123456789''
         @ ''01234567890123456789012345678901234567890123456789''
         @ ''01234567890123456789012345678901234567890123456789'') = 150
   \<and> Some \<lparr>user = Some \<lparr>id_session_user = ''u1''\<rparr>\<rparr>
       = Some \<lparr>user = Some \<lparr>id_session_user = ''u1''\<rparr>\<rparr>
   \<and> user \<lparr>user = Some \<lparr>id_session_user = ''u1''\<rparr>\<rparr> = Some \<lparr>id_session_user = ''u1''\<rparr>
   \<and> content \<lparr>id_message = ''m1'', role = ''user'', content = Str (''01234567890123456789012345678901234567890123456789''
         @ ''01234567890123456789012345678901234567890123456789''
         @ ''01234567890123456789012345678901234567890123456789''), name = None\<rparr>
       = Str (''01234567890123456789012345678901234567890123456789''
         @ ''01234567890123456789012345678901234567890123456789''
         @ ''01234567890123456789012345678901234567890123456789'')
   \<and> (\<exists>chat.
         onSetAIState (Some \<lparr>user = Some \<lparr>id_session_user = ''u1''\<rparr>\<rparr>) 7
           \<lparr>chatId = ''c42'',
            messages = [\<lparr>id_message = ''m1'', role = ''user'', content = Str (''01234567890123456789012345678901234567890123456789''
         @ ''01234567890123456789012345678901234567890123456789''
         @ ''01234567890123456789012345678901234567890123456789''),
                         name = None\<rparr>]\<rparr>
           = Inr (Some chat)
         \<and> title chat = (''01234567890123456789012345678901234567890123456789''
         @ ''01234567890123456789012345678901234567890123456789'')
         \<and> path chat = ''/chat/c42'')"
  using persisted_title_and_path
    [of "Some \<lparr>user = Some \<lparr>id_session_user = ''u1''\<rparr>\<rparr>"
        "\<lparr>user = Some \<lparr>id_session_user = ''u1''\<rparr>\<rparr>"
        "\<lparr>id_session_user = ''u1''\<rparr>"
        "\<lparr>chatId = ''c42'',
          messages = [\<lparr>id_message = ''m1'', role = ''user'', content = Str (''01234567890123456789012345678901234567890123456789''
         @ ''01234567890123456789012345678901234567890123456789''
         @ ''01234567890123456789012345678901234567890123456789''),
                       name = None\<rparr>]\<rparr>"
        "\<lparr>id_message = ''m1'', role = ''user'', content = Str (''01234567890123456789012345678901234567890123456789''
         @ ''01234567890123456789012345678901234567890123456789''
         @ ''01234567890123456789012345678901234567890123456789''), name = None\<rparr>"
        "[]"
        "(''01234567890123456789012345678901234567890123456789''
         @ ''01234567890123456789012345678901234567890123456789''
         @ ''01234567890123456789012345678901234567890123456789'')"
        7]
  by auto

subsection \<open>C10\<close>

text \<open>
  C10. For every conversation state, the id of the entry at position \<open>i\<close> of the projection
  is \<open>chatId + "-" + i\<close>, where \<open>i\<close> counts from zero within the filtered (non-system)
  list. The \<open>id\<close> fields of the messages are not used: rewriting them in any way leaves the
  projection as it is, so the projection depends on the chatId and on the roles and
  contents alone and is the same however often it is computed. The ids name positions, not
  messages: when a non-system message \<open>x\<close> is removed from the state, the ids that remain
  are the old ones without the last, and each of them, from the position of \<open>x\<close> on, now
  names the display that used to be one position later.
\<close>

theorem ui_ids_are_positions:
  "map id_ui (getUIStateFromAIState S)
     = map (\<lambda>i. chatId S @ ''-'' @ toString i)
         [0..<length (filter (\<lambda>m. role m \<noteq> ''system'') (messages S))]
   \<and> getUIStateFromAIState (S\<lparr>messages := map (\<lambda>m. m\<lparr>id_message := f m\<rparr>) (messages S)\<rparr>)
     = getUIStateFromAIState S
   \<and> (role x \<noteq> ''system'' \<longrightarrow>
        map id_ui (getUIStateFromAIState (S\<lparr>messages := pre @ rest\<rparr>))
          = butlast (map id_ui (getUIStateFromAIState (S\<lparr>messages := pre @ x # rest\<rparr>)))
        \<and> map display (getUIStateFromAIState (S\<lparr>messages := pre @ rest\<rparr>))
          = take (length (filter (\<lambda>m. role m \<noteq> ''system'') pre))
              (map display (getUIStateFromAIState (S\<lparr>messages := pre @ x # rest\<rparr>)))
            @ drop (Suc (length (filter (\<lambda>m. role m \<noteq> ''system'') pre)))
                (map display (getUIStateFromAIState (S\<lparr>messages := pre @ x # rest\<rparr>))))"
proof -
  have "role x \<noteq> ''system'' \<longrightarrow>
        map id_ui (getUIStateFromAIState (S\<lparr>messages := pre @ rest\<rparr>))
          = butlast (map id_ui (getUIStateFromAIState (S\<lparr>messages := pre @ x # rest\<rparr>)))
        \<and> map display (getUIStateFromAIState (S\<lparr>messages := pre @ rest\<rparr>))
          = take (length (filter (\<lambda>m. role m \<noteq> ''system'') pre))
              (map display (getUIStateFromAIState (S\<lparr>messages := pre @ x # rest\<rparr>)))
            @ drop (Suc (length (filter (\<lambda>m. role m \<noteq> ''system'') pre)))
                (map display (getUIStateFromAIState (S\<lparr>messages := pre @ x # rest\<rparr>)))"
    using getUI_removal_ids [of x pre rest S] getUI_removal_display [of x pre rest S]
    by blast
  with getUI_ids [of S] getUI_ignores_message_ids [of f S] show ?thesis
    by blast
qed

theorem ui_ids_are_positions_witness:
  "role \<lparr>id_message = ''m1'', role = ''user'', content = Str ''hi'', name = None\<rparr> \<noteq> ''system''
   \<and> map id_ui (getUIStateFromAIState
        \<lparr>chatId = ''c'',
         messages = [\<lparr>id_message = ''m1'', role = ''user'', content = Str ''hi'', name = None\<rparr>,
                     \<lparr>id_message = ''m2'', role = ''system'', content = Str ''note'',
                      name = None\<rparr>,
                     \<lparr>id_message = ''m3'', role = ''assistant'', content = Str ''yo'',
                      name = None\<rparr>]\<rparr>)
       = [''c-0'', ''c-1'']
   \<and> map display (getUIStateFromAIState
        \<lparr>chatId = ''c'',
         messages = [\<lparr>id_message = ''m1'', role = ''user'', content = Str ''hi'', name = None\<rparr>,
                     \<lparr>id_message = ''m2'', role = ''system'', content = Str ''note'',
                      name = None\<rparr>,
                     \<lparr>id_message = ''m3'', role = ''assistant'', content = Str ''yo'',
                      name = None\<rparr>]\<rparr>)
       = [UserMessage (Str ''hi''), BotMessage ''yo'']
   \<and> map id_ui (getUIStateFromAIState
        \<lparr>chatId = ''c'',
         messages = [\<lparr>id_message = ''m2'', role = ''system'', content = Str ''note'',
                      name = None\<rparr>,
                     \<lparr>id_message = ''m3'', role = ''assistant'', content = Str ''yo'',
                      name = None\<rparr>]\<rparr>)
       = [''c-0'']
   \<and> map display (getUIStateFromAIState
        \<lparr>chatId = ''c'',
         messages = [\<lparr>id_message = ''m2'', role = ''system'', content = Str ''note'',
                      name = None\<rparr>,
                     \<lparr>id_message = ''m3'', role = ''assistant'', content = Str ''yo'',
                      name = None\<rparr>]\<rparr>)
       = [BotMessage ''yo'']"
  using ui_ids_are_positions
    [of "\<lparr>chatId = ''c'',
          messages = [\<lparr>id_message = ''m1'', role = ''user'', content = Str ''hi'',
                       name = None\<rparr>,
                      \<lparr>id_message = ''m2'', role = ''system'', content = Str ''note'',
                       name = None\<rparr>,
                      \<lparr>id_message = ''m3'', role = ''assistant'', content = Str ''yo'',
                       name = None\<rparr>]\<rparr>"
        "\<lambda>m. ''x''"
        "\<lparr>id_message = ''m1'', role = ''user'', content = Str ''hi'', name = None\<rparr>"
        "[]"
        "[\<lparr>id_message = ''m2'', role = ''system'', content = Str ''note'', name = None\<rparr>,
          \<lparr>id_message = ''m3'', role = ''assistant'', content = Str ''yo'', name = None\<rparr>]"]
  by (simp add: getUIStateFromAIState_def display_of_def toString.simps digit_def)

end
